theory Spec2Isabelle
  imports Main
begin

section \<open>The portfolio screen: data model\<close>

text \<open>
  The repository is one React Native screen, \<open>app/(tabs)/index.tsx\<close>, and a second copy of
  the same screen without its explanatory comments (\<open>part_000\<close>). A function component is
  embedded as the HOL function from its props to the element tree it returns; the one hook
  (\<open>useRef\<close>) and the one effect (\<open>scrollTo\<close>) are explicit state passing over a
  \<open>world\<close>.
\<close>

subsection \<open>Style values\<close>

text \<open>
  A style is the object literal of the source, kept as an association list in source order.
  A number literal without a fraction is \<open>SNum\<close>; \<open>SDec m e\<close> is the decimal literal
  \<open>m / 10 ^ e\<close> (\<open>-0.8\<close> is \<open>SDec (-8) 1\<close>), so no floating point is involved.
\<close>

datatype style_value =
    SNum int
  | SDec int nat
  | SStr string
  | SObj "(string \<times> style_value) list"

type_synonym style = "(string \<times> style_value) list"

text \<open>An entry of a style array: a style, or the \<open>false\<close> that \<open>pressed && s\<close> leaves.\<close>

datatype style_item = StyleRef style | SFalse

subsection \<open>Elements\<close>

text \<open>The refs the screen declares with \<open>useRef\<close>: there is one.\<close>

datatype ref_name = scrollViewRef

text \<open>
  The element tree. \<open>View\<close>, \<open>Text\<close>, \<open>Pressable\<close> and \<open>ScrollView\<close> are the host
  components with the props the source gives them; \<open>Comp n k e\<close> is a use of the function
  component named \<open>n\<close> with \<open>key\<close> prop \<open>k\<close>, whose body returned \<open>e\<close>. The parameter
  \<open>'h\<close> is the type of the \<open>onPress\<close> callback.
\<close>

datatype 'h element =
    View style "'h element list"
  | Text style string
  | Pressable "bool \<Rightarrow> style_item list" 'h "'h element list"
  | ScrollView ref_name style style "'h element list"
  | Comp string "int option" "'h element"

text \<open>\<open>interface ProjectData\<close>; the field \<open>id\<close> is \<open>id_num\<close> here (\<open>id\<close> is the identity of HOL).\<close>

record ProjectData =
  id_num :: int
  title :: string
  description :: string
  tech :: string

subsection \<open>The world: refs and native calls\<close>

type_synonym instance_id = nat

text \<open>The argument object of \<open>scrollTo\<close>, with the two properties the source passes.\<close>

datatype scroll_options = ScrollOptions (opt_y: int) (opt_animated: bool)

datatype native_call = ScrollTo instance_id scroll_options

datatype js_error = TypeError

text \<open>
  \<open>refs w r = None\<close>: the ref object \<open>r\<close> does not exist yet (the component has not rendered);
  \<open>refs w r = Some c\<close>: it exists and \<open>r.current\<close> is \<open>c\<close>, where \<open>None\<close> is \<open>null\<close> and
  \<open>Some i\<close> the mounted native view \<open>i\<close>. \<open>native_calls\<close> is the log of the method calls
  made on native views, oldest first.
\<close>

record world =
  refs :: "ref_name \<Rightarrow> instance_id option option"
  native_calls :: "native_call list"

type_synonym handler = "world \<Rightarrow> js_error + unit \<times> world"

text \<open>
  \<open>useRef(initialValue)\<close>: the first render creates the ref object with that \<open>current\<close>;
  every later render returns the same object untouched.
\<close>

definition useRef :: "ref_name \<Rightarrow> instance_id option \<Rightarrow> world \<Rightarrow> world" where
  "useRef r initialValue w =
     (case refs w r of
        None \<Rightarrow> w\<lparr>refs := (refs w)(r \<mapsto> initialValue)\<rparr>
      | Some c \<Rightarrow> w)"

text \<open>\<open>r.current\<close>; a ref that was never created holds no view either.\<close>

definition current :: "ref_name \<Rightarrow> world \<Rightarrow> instance_id option" where
  "current r w = (case refs w r of None \<Rightarrow> None | Some c \<Rightarrow> c)"

text \<open>\<open>sv.scrollTo(options)\<close> on a native scroll view: the call is made, nothing is returned.\<close>

definition scrollTo :: "instance_id \<Rightarrow> scroll_options \<Rightarrow> handler" where
  "scrollTo sv options w = Inr ((), w\<lparr>native_calls := native_calls w @ [ScrollTo sv options]\<rparr>)"

text \<open>The host sets the ref named by a \<open>ref\<close> prop to the native view once it is mounted.\<close>

definition attach_ref :: "ref_name \<Rightarrow> instance_id \<Rightarrow> world \<Rightarrow> world" where
  "attach_ref r i w = w\<lparr>refs := (refs w)(r \<mapsto> Some i)\<rparr>"

subsection \<open>Reading an element tree\<close>

text \<open>The strings shown by the \<open>Text\<close> elements of a tree, in document order.\<close>

fun texts :: "'h element \<Rightarrow> string list" where
  "texts (View st cs) = concat (map texts cs)"
| "texts (Text st s) = [s]"
| "texts (Pressable f h cs) = concat (map texts cs)"
| "texts (ScrollView r st cst cs) = concat (map texts cs)"
| "texts (Comp n k e) = texts e"

text \<open>The \<open>onPress\<close> callbacks of the \<open>Pressable\<close> elements of a tree, in document order.\<close>

fun pressables :: "'h element \<Rightarrow> 'h list" where
  "pressables (View st cs) = concat (map pressables cs)"
| "pressables (Text st s) = []"
| "pressables (Pressable f h cs) = h # concat (map pressables cs)"
| "pressables (ScrollView r st cst cs) = concat (map pressables cs)"
| "pressables (Comp n k e) = pressables e"

text \<open>
  The uses of the function component named \<open>n\<close> in a tree, in document order: each with its
  key and what it rendered.
\<close>

fun instances :: "string \<Rightarrow> 'h element \<Rightarrow> (int option \<times> 'h element) list" where
  "instances n (View st cs) = concat (map (instances n) cs)"
| "instances n (Text st s) = []"
| "instances n (Pressable f h cs) = concat (map (instances n) cs)"
| "instances n (ScrollView r st cst cs) = concat (map (instances n) cs)"
| "instances n (Comp m k e) = (if m = n then [(k, e)] else []) @ instances n e"

text \<open>The direct children of an element.\<close>

fun children :: "'h element \<Rightarrow> 'h element list" where
  "children (View st cs) = cs"
| "children (Text st s) = []"
| "children (Pressable f h cs) = cs"
| "children (ScrollView r st cst cs) = cs"
| "children (Comp n k e) = [e]"

text \<open>The name of the function component an element is a use of, if it is one.\<close>

fun comp_name :: "'h element \<Rightarrow> string option" where
  "comp_name (Comp n k e) = Some n"
| "comp_name (View st cs) = None"
| "comp_name (Text st s) = None"
| "comp_name (Pressable f h cs) = None"
| "comp_name (ScrollView r st cst cs) = None"

text \<open>
  A press on the screen's button runs the \<open>onPress\<close> of the first \<open>Pressable\<close> of the tree;
  a tree without one has nothing to press.
\<close>

definition press :: "handler element \<Rightarrow> handler" where
  "press e w = (case pressables e of [] \<Rightarrow> Inr ((), w) | h # hs \<Rightarrow> h w)"

text \<open>The native calls a handler run added to the log.\<close>

definition calls_made :: "world \<Rightarrow> js_error + unit \<times> world \<Rightarrow> native_call list" where
  "calls_made w res =
     (case res of Inl err \<Rightarrow> [] | Inr (u, w') \<Rightarrow> drop (length (native_calls w)) (native_calls w'))"

section \<open>The screen of \<open>app/(tabs)/index.tsx\<close>\<close>

subsection \<open>The style sheet\<close>

text \<open>
  \<open>const styles = StyleSheet.create({...})\<close>: the entry \<open>styles.hero\<close> of the source is
  \<open>styles_hero\<close>, and so on for each of its entries.
\<close>

definition styles_container :: style where
  "styles_container =
     [(''backgroundColor'', SStr ''#FAFBFC'')]"

definition styles_content :: style where
  "styles_content =
     [(''paddingHorizontal'', SNum 24),
      (''paddingTop'', SNum 40),
      (''paddingBottom'', SNum 60)]"

definition styles_hero :: style where
  "styles_hero =
     [(''marginBottom'', SNum 72)]"

definition styles_name :: style where
  "styles_name =
     [(''fontSize'', SNum 44),
      (''fontWeight'', SStr ''700''),
      (''color'', SStr ''#0F172A''),
      (''letterSpacing'', SDec (- 8) 1),
      (''lineHeight'', SNum 52),
      (''marginBottom'', SNum 8)]"

definition styles_role :: style where
  "styles_role =
     [(''fontSize'', SNum 22),
      (''fontWeight'', SStr ''600''),
      (''color'', SStr ''#475569''),
      (''lineHeight'', SNum 32),
      (''marginBottom'', SNum 16)]"

definition styles_tagline :: style where
  "styles_tagline =
     [(''fontSize'', SNum 17),
      (''fontWeight'', SStr ''400''),
      (''color'', SStr ''#64748B''),
      (''lineHeight'', SNum 26),
      (''maxWidth'', SNum 360),
      (''marginBottom'', SNum 32)]"

definition styles_ctaButton :: style where
  "styles_ctaButton =
     [(''marginTop'', SNum 8),
      (''paddingVertical'', SNum 12),
      (''paddingHorizontal'', SNum 28),
      (''backgroundColor'', SStr ''#E0E7FF''),
      (''borderRadius'', SNum 8),
      (''alignSelf'', SStr ''flex-start'')]"

definition styles_ctaButtonPressed :: style where
  "styles_ctaButtonPressed =
     [(''backgroundColor'', SStr ''#C7D2FE'')]"

definition styles_ctaText :: style where
  "styles_ctaText =
     [(''fontSize'', SNum 15),
      (''fontWeight'', SStr ''600''),
      (''color'', SStr ''#3730A3''),
      (''lineHeight'', SNum 20)]"

definition styles_section :: style where
  "styles_section =
     [(''marginBottom'', SNum 64)]"

definition styles_sectionTitle :: style where
  "styles_sectionTitle =
     [(''fontSize'', SNum 28),
      (''fontWeight'', SStr ''700''),
      (''color'', SStr ''#0F172A''),
      (''marginBottom'', SNum 16),
      (''lineHeight'', SNum 36)]"

definition styles_text :: style where
  "styles_text =
     [(''fontSize'', SNum 16),
      (''fontWeight'', SStr ''400''),
      (''color'', SStr ''#334155''),
      (''lineHeight'', SNum 28),
      (''marginBottom'', SNum 0)]"

definition styles_projectsContainer :: style where
  "styles_projectsContainer =
     [(''marginTop'', SNum 28),
      (''gap'', SNum 16)]"

definition styles_projectCard :: style where
  "styles_projectCard =
     [(''backgroundColor'', SStr ''#FFFFFF''),
      (''borderRadius'', SNum 10),
      (''paddingVertical'', SNum 20),
      (''paddingHorizontal'', SNum 20),
      (''borderLeftWidth'', SNum 4),
      (''borderLeftColor'', SStr ''#4F46E5''),
      (''shadowColor'', SStr ''#000''),
      (''shadowOffset'', SObj [(''width'', SNum 0), (''height'', SNum 2)]),
      (''shadowOpacity'', SDec 4 2),
      (''shadowRadius'', SNum 6),
      (''elevation'', SNum 2)]"

definition styles_projectTitle :: style where
  "styles_projectTitle =
     [(''fontSize'', SNum 18),
      (''fontWeight'', SStr ''700''),
      (''color'', SStr ''#0F172A''),
      (''marginBottom'', SNum 12),
      (''lineHeight'', SNum 26)]"

definition styles_projectDescription :: style where
  "styles_projectDescription =
     [(''fontSize'', SNum 15),
      (''fontWeight'', SStr ''400''),
      (''color'', SStr ''#475569''),
      (''lineHeight'', SNum 25),
      (''marginBottom'', SNum 14)]"

definition styles_projectTech :: style where
  "styles_projectTech =
     [(''fontSize'', SNum 13),
      (''fontWeight'', SStr ''600''),
      (''color'', SStr ''#4F46E5''),
      (''backgroundColor'', SStr ''#EEF2FF''),
      (''paddingVertical'', SNum 6),
      (''paddingHorizontal'', SNum 12),
      (''borderRadius'', SNum 5),
      (''overflow'', SStr ''hidden''),
      (''alignSelf'', SStr ''flex-start'')]"

subsection \<open>The components\<close>

text \<open>
  Strings are the bytes of the source's literals. The one character outside ASCII, the dash of
  the About text (U+2014), is its three UTF-8 bytes. JSX text that spans lines is trimmed of
  the line breaks and indentation around it, as JSX does.
\<close>

definition em_dash :: string where
  "em_dash = [CHR 0xE2, CHR 0x80, CHR 0x94]"

definition HeroSection :: "'h \<Rightarrow> 'h element" where
  "HeroSection onViewWorkPress =
     View styles_hero
       [Text styles_name ''Smriti Ray'',
        Text styles_role ''Aspiring Data Analyst'',
        Text styles_tagline ''Turning data into clear, actionable insights.'',
        Pressable
          (\<lambda>pressed. [StyleRef styles_ctaButton,
                      if pressed then StyleRef styles_ctaButtonPressed else SFalse])
          onViewWorkPress
          [Text styles_ctaText ''View My Work'']]"

definition AboutSection :: "'h element" where
  "AboutSection =
     View styles_section
       [Text styles_sectionTitle ''About Me'',
        Text styles_text
          (''I'm learning to be a data analyst by working through real problems. I find it exciting when data reveals something useful or interesting''
           @ em_dash @
           ''and I focus on making sure my analysis is clear and honest rather than just impressive-looking. I'm still growing, but I'm committed to doing thoughtful work.'')]"

definition ProjectCard :: "string \<Rightarrow> string \<Rightarrow> string \<Rightarrow> 'h element" where
  "ProjectCard title' description' tech' =
     View styles_projectCard
       [Text styles_projectTitle title',
        Text styles_projectDescription description',
        Text styles_projectTech tech']"

definition ProjectsSection :: "ProjectData list \<Rightarrow> 'h element" where
  "ProjectsSection projects' =
     View styles_section
       [Text styles_sectionTitle ''Projects'',
        Text styles_text
          ''This portfolio shows projects I've completed through coursework and personal practice. I work with Excel, SQL, and Python to clean data and find insights. Each project taught me something new about how to approach a problem thoughtfully.'',
        View styles_projectsContainer
          (map (\<lambda>project.
                  Comp ''ProjectCard'' (Some (id_num project))
                    (ProjectCard (title project) (description project) (tech project)))
             projects')]"

definition ContactSection :: "'h element" where
  "ContactSection =
     View styles_section
       [Text styles_sectionTitle ''Get in Touch'',
        Text styles_text ''Email: smritiray2.sr@gmail.com'',
        Text styles_text ''GitHub: github.com/smritiray2-sr'']"

definition projects :: "ProjectData list" where
  "projects =
     [\<lparr>id_num = 1,
       title = ''Sales Performance Analysis'',
       description = ''Analyzed quarterly sales data to identify trends and top-performing regions. Cleaned and visualized data to support business decisions.'',
       tech = ''Excel, SQL, Tableau''\<rparr>,
      \<lparr>id_num = 2,
       title = ''Customer Segmentation Study'',
       description = ''Used Python to segment customers based on purchase behavior and demographics. Created visualizations to guide marketing strategy.'',
       tech = ''Python, Pandas, Matplotlib''\<rparr>,
      \<lparr>id_num = 3,
       title = ''Inventory Data Cleanup Project'',
       description = ''Identified and fixed data quality issues in a product inventory dataset. Documented processes for ongoing data maintenance.'',
       tech = ''Excel, Python, SQL''\<rparr>]"

definition handleViewWork :: handler where
  "handleViewWork w =
     (case current scrollViewRef w of
        None \<Rightarrow> Inr ((), w)
      | Some sv \<Rightarrow> scrollTo sv (ScrollOptions 450 True) w)"

definition HomeScreen :: "world \<Rightarrow> handler element \<times> world" where
  "HomeScreen w =
     (let w' = useRef scrollViewRef None w
      in (ScrollView scrollViewRef styles_container styles_content
            [Comp ''HeroSection'' None (HeroSection handleViewWork),
             Comp ''AboutSection'' None AboutSection,
             Comp ''ProjectsSection'' None (ProjectsSection projects),
             Comp ''ContactSection'' None ContactSection],
          w'))"

text \<open>
  Mounting: the first render, after which the host hands the native view \<open>i\<close> of the root
  element to the ref its \<open>ref\<close> prop names.
\<close>

definition mount :: "instance_id \<Rightarrow> world \<Rightarrow> handler element \<times> world" where
  "mount i w =
     (case HomeScreen w of
        (e, w') \<Rightarrow>
          (e, (case e of ScrollView r st cst cs \<Rightarrow> attach_ref r i w' | _ \<Rightarrow> w')))"

text \<open>The world before the first render: no ref object yet, no native call made.\<close>

definition initial_world :: world where
  "initial_world = \<lparr>refs = (\<lambda>r. None), native_calls = []\<rparr>"

text \<open>
  What happens to a mounted screen: the button is pressed, or the screen renders again.
  A press runs the \<open>onPress\<close> of the tree of the latest render; a handler that threw would
  leave the world as it was.
\<close>

datatype event = Press | Rerender

definition step :: "event \<Rightarrow> world \<Rightarrow> world" where
  "step ev w =
     (case ev of
        Press \<Rightarrow> (case press (fst (HomeScreen w)) w of Inl err \<Rightarrow> w | Inr (u, w') \<Rightarrow> w')
      | Rerender \<Rightarrow> snd (HomeScreen w))"

fun run :: "event list \<Rightarrow> world \<Rightarrow> world" where
  "run [] w = w"
| "run (ev # evs) w = run evs (step ev w)"

text \<open>
  The world of a screen that was mounted in \<open>w0\<close> with native view \<open>i\<close> and has since seen
  the events \<open>evs\<close>. A button exists to be pressed in these worlds and in no other.
\<close>

definition mounted_world :: "instance_id \<Rightarrow> world \<Rightarrow> event list \<Rightarrow> world" where
  "mounted_world i w0 evs = run evs (snd (mount i w0))"

section \<open>The screen of \<open>part_000\<close>\<close>

text \<open>
  The second source file, embedded on its own from its own text; every name carries the
  suffix \<open>_part_000\<close>. The interfaces it declares are those of the first file, so the types
  are shared.
\<close>

definition styles_container_part_000 :: style where
  "styles_container_part_000 =
     [(''backgroundColor'', SStr ''#FAFBFC'')]"

definition styles_content_part_000 :: style where
  "styles_content_part_000 =
     [(''paddingHorizontal'', SNum 24),
      (''paddingTop'', SNum 40),
      (''paddingBottom'', SNum 60)]"

definition styles_hero_part_000 :: style where
  "styles_hero_part_000 =
     [(''marginBottom'', SNum 72)]"

definition styles_name_part_000 :: style where
  "styles_name_part_000 =
     [(''fontSize'', SNum 44),
      (''fontWeight'', SStr ''700''),
      (''color'', SStr ''#0F172A''),
      (''letterSpacing'', SDec (- 8) 1),
      (''lineHeight'', SNum 52),
      (''marginBottom'', SNum 8)]"

definition styles_role_part_000 :: style where
  "styles_role_part_000 =
     [(''fontSize'', SNum 22),
      (''fontWeight'', SStr ''600''),
      (''color'', SStr ''#475569''),
      (''lineHeight'', SNum 32),
      (''marginBottom'', SNum 16)]"

definition styles_tagline_part_000 :: style where
  "styles_tagline_part_000 =
     [(''fontSize'', SNum 17),
      (''fontWeight'', SStr ''400''),
      (''color'', SStr ''#64748B''),
      (''lineHeight'', SNum 26),
      (''maxWidth'', SNum 360),
      (''marginBottom'', SNum 32)]"

definition styles_ctaButton_part_000 :: style where
  "styles_ctaButton_part_000 =
     [(''marginTop'', SNum 8),
      (''paddingVertical'', SNum 12),
      (''paddingHorizontal'', SNum 28),
      (''backgroundColor'', SStr ''#E0E7FF''),
      (''borderRadius'', SNum 8),
      (''alignSelf'', SStr ''flex-start'')]"

definition styles_ctaButtonPressed_part_000 :: style where
  "styles_ctaButtonPressed_part_000 =
     [(''backgroundColor'', SStr ''#C7D2FE'')]"

definition styles_ctaText_part_000 :: style where
  "styles_ctaText_part_000 =
     [(''fontSize'', SNum 15),
      (''fontWeight'', SStr ''600''),
      (''color'', SStr ''#3730A3''),
      (''lineHeight'', SNum 20)]"

definition styles_section_part_000 :: style where
  "styles_section_part_000 =
     [(''marginBottom'', SNum 64)]"

definition styles_sectionTitle_part_000 :: style where
  "styles_sectionTitle_part_000 =
     [(''fontSize'', SNum 28),
      (''fontWeight'', SStr ''700''),
      (''color'', SStr ''#0F172A''),
      (''marginBottom'', SNum 16),
      (''lineHeight'', SNum 36)]"

definition styles_text_part_000 :: style where
  "styles_text_part_000 =
     [(''fontSize'', SNum 16),
      (''fontWeight'', SStr ''400''),
      (''color'', SStr ''#334155''),
      (''lineHeight'', SNum 28),
      (''marginBottom'', SNum 0)]"

definition styles_projectsContainer_part_000 :: style where
  "styles_projectsContainer_part_000 =
     [(''marginTop'', SNum 28),
      (''gap'', SNum 16)]"

definition styles_projectCard_part_000 :: style where
  "styles_projectCard_part_000 =
     [(''backgroundColor'', SStr ''#FFFFFF''),
      (''borderRadius'', SNum 10),
      (''paddingVertical'', SNum 20),
      (''paddingHorizontal'', SNum 20),
      (''borderLeftWidth'', SNum 4),
      (''borderLeftColor'', SStr ''#4F46E5''),
      (''shadowColor'', SStr ''#000''),
      (''shadowOffset'', SObj [(''width'', SNum 0), (''height'', SNum 2)]),
      (''shadowOpacity'', SDec 4 2),
      (''shadowRadius'', SNum 6),
      (''elevation'', SNum 2)]"

definition styles_projectTitle_part_000 :: style where
  "styles_projectTitle_part_000 =
     [(''fontSize'', SNum 18),
      (''fontWeight'', SStr ''700''),
      (''color'', SStr ''#0F172A''),
      (''marginBottom'', SNum 12),
      (''lineHeight'', SNum 26)]"

definition styles_projectDescription_part_000 :: style where
  "styles_projectDescription_part_000 =
     [(''fontSize'', SNum 15),
      (''fontWeight'', SStr ''400''),
      (''color'', SStr ''#475569''),
      (''lineHeight'', SNum 25),
      (''marginBottom'', SNum 14)]"

definition styles_projectTech_part_000 :: style where
  "styles_projectTech_part_000 =
     [(''fontSize'', SNum 13),
      (''fontWeight'', SStr ''600''),
      (''color'', SStr ''#4F46E5''),
      (''backgroundColor'', SStr ''#EEF2FF''),
      (''paddingVertical'', SNum 6),
      (''paddingHorizontal'', SNum 12),
      (''borderRadius'', SNum 5),
      (''overflow'', SStr ''hidden''),
      (''alignSelf'', SStr ''flex-start'')]"

definition HeroSection_part_000 :: "'h \<Rightarrow> 'h element" where
  "HeroSection_part_000 onViewWorkPress =
     View styles_hero_part_000
       [Text styles_name_part_000 ''Smriti Ray'',
        Text styles_role_part_000 ''Aspiring Data Analyst'',
        Text styles_tagline_part_000 ''Turning data into clear, actionable insights.'',
        Pressable
          (\<lambda>pressed. [StyleRef styles_ctaButton_part_000,
                      if pressed then StyleRef styles_ctaButtonPressed_part_000 else SFalse])
          onViewWorkPress
          [Text styles_ctaText_part_000 ''View My Work'']]"

definition AboutSection_part_000 :: "'h element" where
  "AboutSection_part_000 =
     View styles_section_part_000
       [Text styles_sectionTitle_part_000 ''About Me'',
        Text styles_text_part_000
          (''I'm learning to be a data analyst by working through real problems. I find it exciting when data reveals something useful or interesting''
           @ em_dash @
           ''and I focus on making sure my analysis is clear and honest rather than just impressive-looking. I'm still growing, but I'm committed to doing thoughtful work.'')]"

definition ProjectCard_part_000 :: "string \<Rightarrow> string \<Rightarrow> string \<Rightarrow> 'h element" where
  "ProjectCard_part_000 title' description' tech' =
     View styles_projectCard_part_000
       [Text styles_projectTitle_part_000 title',
        Text styles_projectDescription_part_000 description',
        Text styles_projectTech_part_000 tech']"

definition ProjectsSection_part_000 :: "ProjectData list \<Rightarrow> 'h element" where
  "ProjectsSection_part_000 projects' =
     View styles_section_part_000
       [Text styles_sectionTitle_part_000 ''Projects'',
        Text styles_text_part_000
          ''This portfolio shows projects I've completed through coursework and personal practice. I work with Excel, SQL, and Python to clean data and find insights. Each project taught me something new about how to approach a problem thoughtfully.'',
        View styles_projectsContainer_part_000
          (map (\<lambda>project.
                  Comp ''ProjectCard'' (Some (id_num project))
                    (ProjectCard_part_000 (title project) (description project) (tech project)))
             projects')]"

definition ContactSection_part_000 :: "'h element" where
  "ContactSection_part_000 =
     View styles_section_part_000
       [Text styles_sectionTitle_part_000 ''Get in Touch'',
        Text styles_text_part_000 ''Email: smritiray2.sr@gmail.com'',
        Text styles_text_part_000 ''GitHub: github.com/smritiray2-sr'']"

definition projects_part_000 :: "ProjectData list" where
  "projects_part_000 =
     [\<lparr>id_num = 1,
       title = ''Sales Performance Analysis'',
       description = ''Analyzed quarterly sales data to identify trends and top-performing regions. Cleaned and visualized data to support business decisions.'',
       tech = ''Excel, SQL, Tableau''\<rparr>,
      \<lparr>id_num = 2,
       title = ''Customer Segmentation Study'',
       description = ''Used Python to segment customers based on purchase behavior and demographics. Created visualizations to guide marketing strategy.'',
       tech = ''Python, Pandas, Matplotlib''\<rparr>,
      \<lparr>id_num = 3,
       title = ''Inventory Data Cleanup Project'',
       description = ''Identified and fixed data quality issues in a product inventory dataset. Documented processes for ongoing data maintenance.'',
       tech = ''Excel, Python, SQL''\<rparr>]"

definition handleViewWork_part_000 :: handler where
  "handleViewWork_part_000 w =
     (case current scrollViewRef w of
        None \<Rightarrow> Inr ((), w)
      | Some sv \<Rightarrow> scrollTo sv (ScrollOptions 450 True) w)"

definition HomeScreen_part_000 :: "world \<Rightarrow> handler element \<times> world" where
  "HomeScreen_part_000 w =
     (let w' = useRef scrollViewRef None w
      in (ScrollView scrollViewRef styles_container_part_000 styles_content_part_000
            [Comp ''HeroSection'' None (HeroSection_part_000 handleViewWork_part_000),
             Comp ''AboutSection'' None AboutSection_part_000,
             Comp ''ProjectsSection'' None (ProjectsSection_part_000 projects_part_000),
             Comp ''ContactSection'' None ContactSection_part_000],
          w'))"

section \<open>Facts about the embedding\<close>

lemma HomeScreen_tree:
  "fst (HomeScreen w) =
     ScrollView scrollViewRef styles_container styles_content
       [Comp ''HeroSection'' None (HeroSection handleViewWork),
        Comp ''AboutSection'' None AboutSection,
        Comp ''ProjectsSection'' None (ProjectsSection projects),
        Comp ''ContactSection'' None ContactSection]"
  by (simp add: HomeScreen_def Let_def)

lemma HomeScreen_world: "snd (HomeScreen w) = useRef scrollViewRef None w"
  by (simp add: HomeScreen_def Let_def)

lemma pressables_HeroSection: "pressables (HeroSection h) = [h]"
  by (simp add: HeroSection_def)

lemma pressables_AboutSection: "pressables (AboutSection :: 'h element) = []"
  by (simp add: AboutSection_def)

lemma pressables_ContactSection: "pressables (ContactSection :: 'h element) = []"
  by (simp add: ContactSection_def)

lemma pressables_ProjectCard: "pressables (ProjectCard t d k :: 'h element) = []"
  by (simp add: ProjectCard_def)

lemma pressables_ProjectsSection: "pressables (ProjectsSection ps :: 'h element) = []"
  by (induction ps) (simp_all add: ProjectsSection_def pressables_ProjectCard)

lemma pressables_HomeScreen: "pressables (fst (HomeScreen w)) = [handleViewWork]"
  by (simp add: HomeScreen_tree pressables_HeroSection pressables_AboutSection
        pressables_ProjectsSection pressables_ContactSection)

lemma press_HomeScreen: "press (fst (HomeScreen w0)) w = handleViewWork w"
  by (simp add: press_def pressables_HomeScreen)

lemma instances_ProjectCard: "instances ''ProjectCard'' (ProjectCard t d k :: 'h element) = []"
  by (simp add: ProjectCard_def)

lemma instances_ProjectsSection:
  "instances ''ProjectCard'' (ProjectsSection ps :: 'h element)
   = map (\<lambda>p. (Some (id_num p), ProjectCard (title p) (description p) (tech p))) ps"
  by (induction ps) (simp_all add: ProjectsSection_def instances_ProjectCard)

lemma instances_HeroSection: "instances n (HeroSection h) = []"
  by (simp add: HeroSection_def)

lemma instances_AboutSection: "instances n (AboutSection :: 'h element) = []"
  by (simp add: AboutSection_def)

lemma instances_ContactSection: "instances n (ContactSection :: 'h element) = []"
  by (simp add: ContactSection_def)

lemma instances_HomeScreen:
  "instances ''ProjectCard'' (fst (HomeScreen w))
   = map (\<lambda>p. (Some (id_num p), ProjectCard (title p) (description p) (tech p))) projects"
  by (simp add: HomeScreen_tree instances_HeroSection instances_AboutSection
        instances_ContactSection instances_ProjectsSection)

lemma texts_ProjectCard: "texts (ProjectCard t d k) = [t, d, k]"
  by (simp add: ProjectCard_def)

lemma current_first_render: "current scrollViewRef (snd (HomeScreen initial_world)) = None"
  by (simp add: HomeScreen_world useRef_def current_def initial_world_def)

lemma mount_world: "snd (mount i w) = attach_ref scrollViewRef i (useRef scrollViewRef None w)"
  by (simp add: mount_def HomeScreen_def Let_def)

lemma mount_tree: "fst (mount i w) = fst (HomeScreen w)"
  by (simp add: mount_def split: prod.splits)

lemma current_mount: "current scrollViewRef (snd (mount i w)) = Some i"
  by (simp add: mount_world attach_ref_def current_def)

lemma handleViewWork_attached:
  "current scrollViewRef w = Some sv \<Longrightarrow>
   handleViewWork w = Inr ((), w\<lparr>native_calls := native_calls w @ [ScrollTo sv (ScrollOptions 450 True)]\<rparr>)"
  by (simp add: handleViewWork_def scrollTo_def)

lemma handleViewWork_null: "current scrollViewRef w = None \<Longrightarrow> handleViewWork w = Inr ((), w)"
  by (simp add: handleViewWork_def)

lemma useRef_idem: "useRef r v (useRef r v w) = useRef r v w"
  by (simp add: useRef_def split: option.splits)

lemma instances_section_ProjectCard:
  "instances ''ProjectsSection'' (ProjectCard t d k :: 'h element) = []"
  by (simp add: ProjectCard_def)

lemma instances_section_ProjectsSection:
  "instances ''ProjectsSection'' (ProjectsSection ps :: 'h element) = []"
  by (induction ps) (simp_all add: ProjectsSection_def instances_section_ProjectCard)

lemma styles_part_000:
  "styles_container_part_000 = styles_container"
  "styles_content_part_000 = styles_content"
  "styles_hero_part_000 = styles_hero"
  "styles_name_part_000 = styles_name"
  "styles_role_part_000 = styles_role"
  "styles_tagline_part_000 = styles_tagline"
  "styles_ctaButton_part_000 = styles_ctaButton"
  "styles_ctaButtonPressed_part_000 = styles_ctaButtonPressed"
  "styles_ctaText_part_000 = styles_ctaText"
  "styles_section_part_000 = styles_section"
  "styles_sectionTitle_part_000 = styles_sectionTitle"
  "styles_text_part_000 = styles_text"
  "styles_projectsContainer_part_000 = styles_projectsContainer"
  "styles_projectCard_part_000 = styles_projectCard"
  "styles_projectTitle_part_000 = styles_projectTitle"
  "styles_projectDescription_part_000 = styles_projectDescription"
  "styles_projectTech_part_000 = styles_projectTech"
  by (simp_all add: styles_container_part_000_def styles_container_def
      styles_content_part_000_def styles_content_def
      styles_hero_part_000_def styles_hero_def
      styles_name_part_000_def styles_name_def
      styles_role_part_000_def styles_role_def
      styles_tagline_part_000_def styles_tagline_def
      styles_ctaButton_part_000_def styles_ctaButton_def
      styles_ctaButtonPressed_part_000_def styles_ctaButtonPressed_def
      styles_ctaText_part_000_def styles_ctaText_def
      styles_section_part_000_def styles_section_def
      styles_sectionTitle_part_000_def styles_sectionTitle_def
      styles_text_part_000_def styles_text_def
      styles_projectsContainer_part_000_def styles_projectsContainer_def
      styles_projectCard_part_000_def styles_projectCard_def
      styles_projectTitle_part_000_def styles_projectTitle_def
      styles_projectDescription_part_000_def styles_projectDescription_def
      styles_projectTech_part_000_def styles_projectTech_def)

lemma HeroSection_part_000_eq: "HeroSection_part_000 = HeroSection"
  by (rule ext)
     (simp add: HeroSection_part_000_def HeroSection_def styles_part_000 cong: if_cong)

lemma AboutSection_part_000_eq: "AboutSection_part_000 = AboutSection"
  by (simp add: AboutSection_part_000_def AboutSection_def styles_part_000)

lemma ProjectCard_part_000_eq: "ProjectCard_part_000 = ProjectCard"
  by (intro ext) (simp add: ProjectCard_part_000_def ProjectCard_def styles_part_000)

lemma ProjectsSection_part_000_eq: "ProjectsSection_part_000 = ProjectsSection"
  by (rule ext)
     (simp add: ProjectsSection_part_000_def ProjectsSection_def ProjectCard_part_000_eq
        styles_part_000)

lemma ContactSection_part_000_eq: "ContactSection_part_000 = ContactSection"
  by (simp add: ContactSection_part_000_def ContactSection_def styles_part_000)

lemma projects_part_000_eq: "projects_part_000 = projects"
  by (simp add: projects_part_000_def projects_def)

lemma handleViewWork_part_000_eq: "handleViewWork_part_000 = handleViewWork"
  by (rule ext) (simp add: handleViewWork_part_000_def handleViewWork_def)

lemma HomeScreen_part_000_eq: "HomeScreen_part_000 = HomeScreen"
  by (rule ext)
     (simp add: HomeScreen_part_000_def HomeScreen_def HeroSection_part_000_eq
        AboutSection_part_000_eq ProjectsSection_part_000_eq ContactSection_part_000_eq
        projects_part_000_eq handleViewWork_part_000_eq styles_part_000)

lemma step_attached:
  "current scrollViewRef w = Some i \<Longrightarrow>
   step ev w =
     (case ev of
        Press \<Rightarrow> w\<lparr>native_calls := native_calls w @ [ScrollTo i (ScrollOptions 450 True)]\<rparr>
      | Rerender \<Rightarrow> w)"
proof (cases ev)
  case Press
  assume "current scrollViewRef w = Some i"
  then show ?thesis
    using Press by (simp add: step_def press_HomeScreen handleViewWork_attached)
next
  case Rerender
  assume a: "current scrollViewRef w = Some i"
  then have "useRef scrollViewRef None w = w"
    by (simp add: useRef_def current_def split: option.splits)
  then show ?thesis
    using Rerender by (simp add: step_def HomeScreen_world)
qed

lemma current_step:
  "current scrollViewRef w = Some i \<Longrightarrow> current scrollViewRef (step ev w) = Some i"
  by (cases ev) (simp_all add: step_attached current_def)

lemma run_attached:
  "current scrollViewRef w = Some i \<Longrightarrow>
     current scrollViewRef (run evs w) = Some i
   \<and> native_calls (run evs w)
       = native_calls w @ replicate (count_list evs Press) (ScrollTo i (ScrollOptions 450 True))"
proof (induction evs arbitrary: w)
  case Nil
  then show ?case by simp
next
  case (Cons ev evs)
  have att: "current scrollViewRef (step ev w) = Some i"
    using Cons.prems by (rule current_step)
  have calls: "native_calls (step ev w)
      = native_calls w @ replicate (count_list [ev] Press) (ScrollTo i (ScrollOptions 450 True))"
    using Cons.prems by (cases ev) (simp_all add: step_attached)
  from Cons.IH [OF att] calls show ?case
    by (cases ev) (simp_all add: replicate_app_Cons_same)
qed

lemma native_calls_mount: "native_calls (snd (mount i w)) = native_calls w"
  by (simp add: mount_world attach_ref_def useRef_def split: option.splits)

lemma current_mounted_world: "current scrollViewRef (mounted_world i w0 evs) = Some i"
  by (simp add: mounted_world_def run_attached [OF current_mount])

section \<open>The claims of the specification\<close>

text \<open>
  Claim C1. The only \<open>onPress\<close> of the screen is \<open>handleViewWork\<close>, a function of the world
  alone that returns the unit value. In every world of a mounted screen, whatever presses and
  renders came before, a press makes exactly one native call: \<open>scrollTo\<close> on the screen's
  scroll view with \<open>y\<close> 450 and \<open>animated\<close> true. Over a whole session the call log has
  grown by exactly one such call per press.
\<close>

theorem every_press_scrolls_once:
  "pressables (fst (HomeScreen w)) = [handleViewWork]
   \<and> press (fst (HomeScreen (mounted_world i w0 evs))) (mounted_world i w0 evs)
       = Inr ((), (mounted_world i w0 evs)
               \<lparr>native_calls := native_calls (mounted_world i w0 evs)
                                  @ [ScrollTo i (ScrollOptions 450 True)]\<rparr>)
   \<and> calls_made (mounted_world i w0 evs)
        (press (fst (HomeScreen (mounted_world i w0 evs))) (mounted_world i w0 evs))
       = [ScrollTo i (ScrollOptions 450 True)]
   \<and> native_calls (mounted_world i w0 evs)
       = native_calls w0 @ replicate (count_list evs Press) (ScrollTo i (ScrollOptions 450 True))"
proof -
  have att: "current scrollViewRef (mounted_world i w0 evs) = Some i"
    by (rule current_mounted_world)
  have one: "press (fst (HomeScreen (mounted_world i w0 evs))) (mounted_world i w0 evs)
       = Inr ((), (mounted_world i w0 evs)
               \<lparr>native_calls := native_calls (mounted_world i w0 evs)
                                  @ [ScrollTo i (ScrollOptions 450 True)]\<rparr>)"
    by (simp add: press_HomeScreen handleViewWork_attached [OF att])
  have log: "native_calls (mounted_world i w0 evs)
       = native_calls w0 @ replicate (count_list evs Press) (ScrollTo i (ScrollOptions 450 True))"
    by (simp add: mounted_world_def run_attached [OF current_mount] native_calls_mount)
  show ?thesis
    using log by (simp add: pressables_HomeScreen one calls_made_def)
qed

text \<open>
  Claim C2. Every render of the screen has exactly three uses of \<open>ProjectCard\<close>, one per
  entry of \<open>projects\<close> in its order; their titles are Sales Performance Analysis, Customer
  Segmentation Study, Inventory Data Cleanup Project.
\<close>

theorem three_project_cards_in_order:
  "length (instances ''ProjectCard'' (fst (HomeScreen w))) = 3
   \<and> instances ''ProjectCard'' (fst (HomeScreen w))
       = map (\<lambda>p. (Some (id_num p), ProjectCard (title p) (description p) (tech p))) projects
   \<and> map (\<lambda>(k, e). take 1 (texts e)) (instances ''ProjectCard'' (fst (HomeScreen w)))
       = [[''Sales Performance Analysis''], [''Customer Segmentation Study''],
          [''Inventory Data Cleanup Project'']]"
  by (simp add: instances_HomeScreen texts_ProjectCard projects_def)

text \<open>
  Claim C3. A project card shows exactly the three strings it is given, title, description
  and technology tag, unchanged and in that order; on the rendered screen the cards show the
  three fields of the entries of \<open>projects\<close>.
\<close>

theorem card_shows_fields_as_supplied:
  "texts (ProjectCard t d k) = [t, d, k]
   \<and> map (\<lambda>(k, e). texts e) (instances ''ProjectCard'' (fst (HomeScreen w)))
       = map (\<lambda>p. [title p, description p, tech p]) projects"
  by (simp add: instances_HomeScreen texts_ProjectCard comp_def)

text \<open>
  Claim C4. When the ref of the scroll container is \<open>null\<close>, a press returns normally
  (\<open>Inr\<close>, no error), leaves the world as it was, and makes no native call.
\<close>

theorem press_without_view_is_noop:
  "current scrollViewRef w = None \<Longrightarrow>
     press (fst (HomeScreen w0)) w = Inr ((), w)
   \<and> calls_made w (press (fst (HomeScreen w0)) w) = []"
  by (simp add: press_HomeScreen handleViewWork_null calls_made_def)

text \<open>
  Claim C4, witness: the world right after the first render has a \<open>null\<close> ref; the press
  there changes nothing and the call log stays empty.
\<close>

theorem press_without_view_is_noop_witness:
  "current scrollViewRef (snd (HomeScreen initial_world)) = None
   \<and> press (fst (HomeScreen initial_world)) (snd (HomeScreen initial_world))
       = Inr ((), snd (HomeScreen initial_world))
   \<and> native_calls (snd (HomeScreen initial_world)) = []"
proof -
  have h: "current scrollViewRef (snd (HomeScreen initial_world)) = None"
    by (simp add: current_first_render)
  have n: "native_calls (snd (HomeScreen initial_world)) = []"
    by (simp add: HomeScreen_world useRef_def initial_world_def)
  show ?thesis
    using h n press_without_view_is_noop [OF h, of initial_world] by simp
qed

text \<open>
  Claim C5. The tree a render returns is the same in any two worlds; rendering again after a
  render returns the same tree and the same world; and the one Projects section of the tree
  is built from the fixed list \<open>projects\<close>.
\<close>

theorem render_is_deterministic:
  "fst (HomeScreen w1) = fst (HomeScreen w2)
   \<and> HomeScreen (snd (HomeScreen w)) = HomeScreen w
   \<and> instances ''ProjectsSection'' (fst (HomeScreen w1)) = [(None, ProjectsSection projects)]"
proof -
  have "fst (HomeScreen w1) = fst (HomeScreen w2)"
    by (simp add: HomeScreen_tree)
  moreover have "HomeScreen (snd (HomeScreen w)) = HomeScreen w"
    by (rule prod_eqI) (simp_all add: HomeScreen_tree HomeScreen_world useRef_idem)
  moreover have "instances ''ProjectsSection'' (fst (HomeScreen w1))
      = [(None, ProjectsSection projects)]"
    by (simp add: HomeScreen_tree instances_HeroSection instances_AboutSection
          instances_ContactSection instances_section_ProjectsSection)
  ultimately show ?thesis by simp
qed

text \<open>
  Claim C6. The identifiers of the fixed list are pairwise distinct (they are 1, 2, 3), the
  list has three entries, and in every world the keys of the rendered cards are the
  identifiers of that same list: no render and no press adds, changes or removes an entry.
\<close>

theorem project_ids_unique:
  "distinct (map id_num projects)
   \<and> map id_num projects = [1, 2, 3]
   \<and> length projects = 3
   \<and> map (\<lambda>(k, e). k) (instances ''ProjectCard'' (fst (HomeScreen w)))
       = map (\<lambda>p. Some (id_num p)) projects"
  by (simp add: instances_HomeScreen projects_def)

text \<open>
  Claim C7. Every render returns a \<open>ScrollView\<close> whose children are the four sections, in
  the order Hero, About, Projects, Contact. Its \<open>ref\<close> prop is the screen's own
  \<open>scrollViewRef\<close>, which exists after the render; once the host has attached the native
  view \<open>i\<close> to it, the ref holds \<open>i\<close> and a press scrolls that view.
\<close>

theorem four_sections_in_scroll_view:
  "fst (HomeScreen w) =
     ScrollView scrollViewRef styles_container styles_content
       [Comp ''HeroSection'' None (HeroSection handleViewWork),
        Comp ''AboutSection'' None AboutSection,
        Comp ''ProjectsSection'' None (ProjectsSection projects),
        Comp ''ContactSection'' None ContactSection]
   \<and> map comp_name (children (fst (HomeScreen w)))
       = [Some ''HeroSection'', Some ''AboutSection'', Some ''ProjectsSection'',
          Some ''ContactSection'']
   \<and> (\<exists>c. refs (snd (HomeScreen w)) scrollViewRef = Some c)
   \<and> current scrollViewRef (snd (mount i w)) = Some i
   \<and> calls_made (snd (mount i w)) (press (fst (mount i w)) (snd (mount i w)))
       = [ScrollTo i (ScrollOptions 450 True)]"
proof -
  have ref: "\<exists>c. refs (snd (HomeScreen w)) scrollViewRef = Some c"
    by (simp add: HomeScreen_world useRef_def split: option.splits)
  have call: "calls_made (snd (mount i w)) (press (fst (mount i w)) (snd (mount i w)))
       = [ScrollTo i (ScrollOptions 450 True)]"
    by (simp add: mount_tree press_HomeScreen handleViewWork_attached [OF current_mount]
          calls_made_def)
  show ?thesis
    using ref call by (simp add: HomeScreen_tree current_mount)
qed

text \<open>
  Claim C9. The screen of \<open>part_000\<close> and the screen of \<open>app/(tabs)/index.tsx\<close> return
  the same tree and the same world for every world, a press on either does the same, and
  their handlers, project lists and sections are equal one by one.
\<close>

theorem source_files_equivalent:
  "HomeScreen_part_000 w = HomeScreen w
   \<and> press (fst (HomeScreen_part_000 w0)) w = press (fst (HomeScreen w0)) w
   \<and> handleViewWork_part_000 w = handleViewWork w
   \<and> projects_part_000 = projects
   \<and> HeroSection_part_000 h = HeroSection h
   \<and> (AboutSection_part_000 :: 'h element) = AboutSection
   \<and> (ProjectsSection_part_000 ps :: 'h element) = ProjectsSection ps
   \<and> (ProjectCard_part_000 t d k :: 'h element) = ProjectCard t d k
   \<and> (ContactSection_part_000 :: 'h element) = ContactSection"
  by (simp add: HomeScreen_part_000_eq handleViewWork_part_000_eq projects_part_000_eq
        HeroSection_part_000_eq AboutSection_part_000_eq ProjectsSection_part_000_eq
        ProjectCard_part_000_eq ContactSection_part_000_eq)

text \<open>
  Claim C10. For every list of project records, the Projects section has exactly one use of
  \<open>ProjectCard\<close> per element, in the order of the list, each keyed by the element's
  identifier and given its three strings; the empty list gives no card. The same holds for the
  section of \<open>part_000\<close>.
\<close>

theorem one_card_per_project:
  "instances ''ProjectCard'' (ProjectsSection ps :: 'h element)
     = map (\<lambda>p. (Some (id_num p), ProjectCard (title p) (description p) (tech p))) ps
   \<and> length (instances ''ProjectCard'' (ProjectsSection ps :: 'h element)) = length ps
   \<and> instances ''ProjectCard'' (ProjectsSection [] :: 'h element) = []
   \<and> instances ''ProjectCard'' (ProjectsSection_part_000 ps :: 'h element)
     = map (\<lambda>p. (Some (id_num p), ProjectCard_part_000 (title p) (description p) (tech p))) ps"
  by (simp add: instances_ProjectsSection ProjectsSection_part_000_eq ProjectCard_part_000_eq)

end
